theory Spec2Isabelle
  imports Complex_Main "HOL-Library.Multiset"
begin

section \<open>The shared log buffer (buffer.go)\<close>

text \<open>
  A \<open>LogBuffer\<close> holds the pending entries and the size at which \<open>Add\<close> hands them
  over. The content of a log entry plays no role in the pipeline, so the entry type
  is a type variable. Every method takes the buffer's mutex for its whole body, so
  each call is one atomic step on the buffer and is modelled as a function from the
  buffer to the returned slice and the updated buffer. A returned \<open>nil\<close> slice is
  \<open>None\<close>.

  \<open>make([]*LogEntry, 0, maxSize)\<close> panics at run time when \<open>maxSize\<close> is negative.
  The allocation limits of the runtime for very large capacities are outside the model.
\<close>

datatype panic =
    MakesliceCapOutOfRange
  | NonPositiveTickerInterval
  | CloseOfNilChannel
  | CloseOfClosedChannel

record 'e LogBuffer =
  entries :: "'e list"
  maxSize :: int

definition NewLogBuffer :: "int \<Rightarrow> panic + 'e LogBuffer" where
  "NewLogBuffer maxSize' =
     (if maxSize' < 0 then Inl MakesliceCapOutOfRange
      else Inr \<lparr>entries = [], maxSize = maxSize'\<rparr>)"

definition resetAndReturn :: "'e LogBuffer \<Rightarrow> 'e list option \<times> 'e LogBuffer" where
  "resetAndReturn b =
     (if length (entries b) = 0 then (None, b)
      else (Some (entries b), b\<lparr>entries := []\<rparr>))"

definition Add :: "'e LogBuffer \<Rightarrow> 'e \<Rightarrow> 'e list option \<times> 'e LogBuffer" where
  "Add b entry =
     (let b1 = b\<lparr>entries := entries b @ [entry]\<rparr>
      in if int (length (entries b1)) \<ge> maxSize b1 then resetAndReturn b1
         else (None, b1))"

definition Flush :: "'e LogBuffer \<Rightarrow> 'e list option \<times> 'e LogBuffer" where
  "Flush b = resetAndReturn b"

text \<open>Sequences of calls on one buffer, with the slices they return, in call order.\<close>

datatype 'e bufOp = OpAdd 'e | OpFlush

fun applyOp :: "'e LogBuffer \<Rightarrow> 'e bufOp \<Rightarrow> 'e list option \<times> 'e LogBuffer" where
  "applyOp b (OpAdd e) = Add b e"
| "applyOp b OpFlush = Flush b"

fun runOps :: "'e LogBuffer \<Rightarrow> 'e bufOp list \<Rightarrow> 'e list option list \<times> 'e LogBuffer" where
  "runOps b [] = ([], b)"
| "runOps b (x # xs) =
     (case applyOp b x of (out, b') \<Rightarrow>
        (case runOps b' xs of (outs, b'') \<Rightarrow> (out # outs, b'')))"

fun added :: "'e bufOp list \<Rightarrow> 'e list" where
  "added [] = []"
| "added (OpAdd e # xs) = e # added xs"
| "added (OpFlush # xs) = added xs"

fun batchOf :: "'e list option \<Rightarrow> 'e list" where
  "batchOf None = []"
| "batchOf (Some es) = es"


section \<open>The buffer pipeline (s3dumper.go)\<close>

text \<open>
  The first \<open>S3Dumper\<close> struct owns one shared \<open>LogBuffer\<close>. The \<open>stop\<close> channel
  carries no values: it is nil, open or closed. Durations are nanoseconds, as
  \<open>time.Duration\<close> is. The plugin chain, the response recorder and \<open>NewLogEntry\<close>
  belong to the request-handling side; a call of \<open>ServeDNS\<close> is described by what they
  deliver: whether the request has a question, the status and error of the next plugin,
  and the log entry \<open>NewLogEntry\<close> builds. \<open>Upload\<close> returns no value; the batches
  handed to it are collected in call order.
\<close>

datatype chanState = ChanNil | ChanOpen | ChanClosed

record 'e dnsCall =
  question :: bool
  nextStatus :: int
  nextErr :: "string option"
  entry :: 'e

record 'e S3DumperB =
  Buffer :: "'e LogBuffer"
  FlushInterval :: int
  stopB :: chanState

definition second :: int where
  "second = 1000000000"

definition ServeDNSB ::
  "'e S3DumperB \<Rightarrow> 'e dnsCall \<Rightarrow> (int \<times> string option) \<times> 'e list option \<times> 'e S3DumperB" where
  "ServeDNSB s c =
     (if question c then
        (case Add (Buffer s) (entry c) of
           (toFlush, b') \<Rightarrow> ((nextStatus c, nextErr c), toFlush, s\<lparr>Buffer := b'\<rparr>))
      else ((nextStatus c, nextErr c), None, s))"

text \<open>\<open>Start\<close>: \<open>time.NewTicker\<close> panics on a non-positive interval.\<close>

definition Start :: "'e S3DumperB \<Rightarrow> panic + 'e S3DumperB" where
  "Start s =
     (if FlushInterval s \<le> 0 then Inl NonPositiveTickerInterval
      else Inr (s\<lparr>stopB := ChanOpen\<rparr>))"

text \<open>The body of the ticker case of the goroutine launched by \<open>Start\<close>.\<close>

definition tickB :: "'e S3DumperB \<Rightarrow> 'e list option \<times> 'e S3DumperB" where
  "tickB s = (case Flush (Buffer s) of (toFlush, b') \<Rightarrow> (toFlush, s\<lparr>Buffer := b'\<rparr>))"

definition closeChan :: "chanState \<Rightarrow> panic + chanState" where
  "closeChan c =
     (case c of ChanNil \<Rightarrow> Inl CloseOfNilChannel
      | ChanClosed \<Rightarrow> Inl CloseOfClosedChannel
      | ChanOpen \<Rightarrow> Inr ChanClosed)"

definition Shutdown :: "'e S3DumperB \<Rightarrow> panic + ('e list option \<times> 'e S3DumperB)" where
  "Shutdown s =
     (case closeChan (stopB s) of
        Inl p \<Rightarrow> Inl p
      | Inr c \<Rightarrow>
          (case Flush (Buffer s) of
             (toFlush, b') \<Rightarrow> Inr (toFlush, s\<lparr>stopB := c, Buffer := b'\<rparr>)))"

text \<open>
  Interleavings of the request path, the ticker goroutine and \<open>Shutdown\<close> on one
  pipeline. \<open>handedB\<close> lists the batches passed to \<open>Upload\<close>, \<open>acceptedB\<close> the entries
  given to \<open>Add\<close>. A step that panics ends the run (\<open>None\<close>).
\<close>

datatype 'e eventB = ServeB "'e dnsCall" | TickB | ShutdownB

record 'e pipeB =
  dumperB :: "'e S3DumperB"
  handedB :: "'e list list"
  acceptedB :: "'e list"

definition handOver :: "'e list option \<Rightarrow> 'e list list \<Rightarrow> 'e list list" where
  "handOver toFlush hs = (case toFlush of None \<Rightarrow> hs | Some es \<Rightarrow> hs @ [es])"

fun stepB :: "'e pipeB \<Rightarrow> 'e eventB \<Rightarrow> 'e pipeB option" where
  "stepB p (ServeB c) =
     (case ServeDNSB (dumperB p) c of
        (ret, toFlush, s') \<Rightarrow>
          Some \<lparr>dumperB = s', handedB = handOver toFlush (handedB p),
                acceptedB = (if question c then acceptedB p @ [entry c] else acceptedB p)\<rparr>)"
| "stepB p TickB =
     (case tickB (dumperB p) of
        (toFlush, s') \<Rightarrow> Some (p\<lparr>dumperB := s', handedB := handOver toFlush (handedB p)\<rparr>))"
| "stepB p ShutdownB =
     (case Shutdown (dumperB p) of
        Inl e \<Rightarrow> None
      | Inr (toFlush, s') \<Rightarrow>
          Some (p\<lparr>dumperB := s', handedB := handOver toFlush (handedB p)\<rparr>))"

fun execB :: "'e pipeB \<Rightarrow> 'e eventB list \<Rightarrow> 'e pipeB option" where
  "execB p [] = Some p"
| "execB p (ev # evs) = (case stepB p ev of None \<Rightarrow> None | Some p' \<Rightarrow> execB p' evs)"


section \<open>The worker-pool pipeline (the S3Dumper with queue and workers)\<close>

text \<open>
  The second \<open>S3Dumper\<close> struct decouples the request path from the uploads by a
  buffered channel and a pool of workers. A channel of entries is its buffer and its
  capacity; the \<open>queue\<close> field may be nil. Go's \<open>int\<close> is 64 bits wide: the two
  products of the shedding test wrap around, which \<open>wrap64\<close> writes out.
\<close>

record 'e chan =
  chanBuf :: "'e list"
  chanCap :: nat

record 'e S3Dumper =
  queue :: "'e chan option"
  stop :: chanState
  workers :: int
  batchSize :: int
  flushEvery :: int
  dropThresh :: int

definition wrap64 :: "int \<Rightarrow> int" where
  "wrap64 x = (x + 2 ^ 63) mod 2 ^ 64 - 2 ^ 63"

definition InitDefaults :: "'e S3Dumper \<Rightarrow> 'e S3Dumper" where
  "InitDefaults s =
     (let s1 = (if workers s = 0 then s\<lparr>workers := 4\<rparr> else s);
          s2 = (if batchSize s1 = 0 then s1\<lparr>batchSize := 1000\<rparr> else s1);
          s3 = (if flushEvery s2 = 0 then s2\<lparr>flushEvery := 5 * second\<rparr> else s2);
          s4 = (if dropThresh s3 = 0 then s3\<lparr>dropThresh := 90\<rparr> else s3);
          s5 = (if queue s4 = None
                then s4\<lparr>queue := Some \<lparr>chanBuf = [], chanCap = 50000\<rparr>\<rparr> else s4)
      in s5\<lparr>stop := ChanOpen\<rparr>)"

text \<open>\<open>len\<close> and \<open>cap\<close> of a channel; both are 0 for a nil channel.\<close>

definition qLen :: "'e chan option \<Rightarrow> int" where
  "qLen qo = (case qo of None \<Rightarrow> 0 | Some q \<Rightarrow> int (length (chanBuf q)))"

definition qCap :: "'e chan option \<Rightarrow> int" where
  "qCap qo = (case qo of None \<Rightarrow> 0 | Some q \<Rightarrow> int (chanCap q))"

text \<open>
  The non-blocking send \<open>select { case s.queue <- entry: default: }\<close>. It proceeds
  when the buffer has room; on a channel without buffer it proceeds only when a
  receiver is parked on the channel (\<open>parked\<close>), and the value then goes to that
  receiver. A send on a nil channel never proceeds.
\<close>

datatype outcome = NoQuestion | Shed | Enqueued | Handed | Dropped

definition trySend :: "'e chan option \<Rightarrow> 'e \<Rightarrow> bool \<Rightarrow> outcome \<times> 'e chan option" where
  "trySend qo e parked =
     (case qo of
        None \<Rightarrow> (Dropped, None)
      | Some q \<Rightarrow>
          if length (chanBuf q) < chanCap q
          then (Enqueued, Some (q\<lparr>chanBuf := chanBuf q @ [e]\<rparr>))
          else if chanCap q = 0 \<and> parked then (Handed, Some q)
          else (Dropped, Some q))"

definition ServeDNS ::
  "'e S3Dumper \<Rightarrow> 'e dnsCall \<Rightarrow> bool \<Rightarrow> (int \<times> string option) \<times> outcome \<times> 'e S3Dumper" where
  "ServeDNS s c parked =
     (if question c then
        (let qlen = qLen (queue s) in
         if qCap (queue s) > 0 \<and> wrap64 (qlen * 100) \<ge> wrap64 (qCap (queue s) * dropThresh s)
         then ((nextStatus c, nextErr c), Shed, s)
         else
           (case trySend (queue s) (entry c) parked of
              (out, q') \<Rightarrow> ((nextStatus c, nextErr c), out, s\<lparr>queue := q'\<rparr>)))
      else ((nextStatus c, nextErr c), NoQuestion, s))"

definition OnShutdown :: "'e S3Dumper \<Rightarrow> panic + 'e S3Dumper" where
  "OnShutdown s =
     (case closeChan (stop s) of Inl p \<Rightarrow> Inl p | Inr c \<Rightarrow> Inr (s\<lparr>stop := c\<rparr>))"

text \<open>
  A worker owns its batch. \<open>flush\<close> is the closure of \<open>worker\<close>: it passes a copy of a
  non-empty batch to \<open>Upload\<close> and resets the batch. The loop of \<open>worker\<close> is a step
  function over the events that wake it: in the outer \<open>select\<close> the closed \<open>stop\<close>
  channel, an entry from the queue, or the ticker; in the drain loop an entry from the
  queue or, the queue being empty, the \<open>default\<close> case, which flushes and returns. The
  pair threaded through is the batch and the list of batches handed to \<open>Upload\<close>.
\<close>

datatype phase = Running | Draining | Stopped

record 'e workerState =
  batch :: "'e list"
  phase :: phase

datatype 'e wakeup = StopClosed | Entry 'e | TickerFired | DrainEntry 'e | DrainEmpty

definition flush :: "'e list \<times> 'e list list \<Rightarrow> 'e list \<times> 'e list list" where
  "flush bu =
     (case bu of (b, ups) \<Rightarrow> if length b = 0 then (b, ups) else ([], ups @ [b]))"

definition appendEntry :: "int \<Rightarrow> 'e \<Rightarrow> 'e list \<times> 'e list list \<Rightarrow> 'e list \<times> 'e list list" where
  "appendEntry B e bu =
     (case bu of (b, ups) \<Rightarrow>
        if int (length (b @ [e])) \<ge> B then flush (b @ [e], ups) else (b @ [e], ups))"

fun worker ::
  "int \<Rightarrow> 'e wakeup \<Rightarrow> 'e workerState \<times> 'e list list \<Rightarrow> ('e workerState \<times> 'e list list) option" where
  "worker B StopClosed (w, ups) =
     (if phase w = Running then Some (w\<lparr>phase := Draining\<rparr>, ups) else None)"
| "worker B (Entry e) (w, ups) =
     (if phase w = Running
      then (case appendEntry B e (batch w, ups) of (b, ups') \<Rightarrow> Some (w\<lparr>batch := b\<rparr>, ups'))
      else None)"
| "worker B TickerFired (w, ups) =
     (if phase w = Running
      then (case flush (batch w, ups) of (b, ups') \<Rightarrow> Some (w\<lparr>batch := b\<rparr>, ups'))
      else None)"
| "worker B (DrainEntry e) (w, ups) =
     (if phase w = Draining
      then (case appendEntry B e (batch w, ups) of (b, ups') \<Rightarrow> Some (w\<lparr>batch := b\<rparr>, ups'))
      else None)"
| "worker B DrainEmpty (w, ups) =
     (if phase w = Draining
      then (case flush (batch w, ups) of
              (b, ups') \<Rightarrow> Some (w\<lparr>batch := b, phase := Stopped\<rparr>, ups'))
      else None)"

text \<open>
  The pool: the dumper, its workers, the batches handed to \<open>Upload\<close> in call order, and
  the entries the request path got into the queue (\<open>admitted\<close>, kept for the
  statements only). \<open>Init\<close> fills in the defaults and launches the workers; a worker
  creates its ticker and its batch first, and both calls can panic.
\<close>

record 'e pool =
  dumper :: "'e S3Dumper"
  ws :: "'e workerState list"
  uploads :: "'e list list"
  admitted :: "'e list"

definition workerStart :: "'e S3Dumper \<Rightarrow> panic + 'e workerState" where
  "workerStart s =
     (if flushEvery s \<le> 0 then Inl NonPositiveTickerInterval
      else if batchSize s < 0 then Inl MakesliceCapOutOfRange
      else Inr \<lparr>batch = [], phase = Running\<rparr>)"

definition Init :: "'e S3Dumper \<Rightarrow> panic + 'e pool" where
  "Init s =
     (let s' = InitDefaults s in
      if workers s' \<le> 0
      then Inr \<lparr>dumper = s', ws = [], uploads = [], admitted = []\<rparr>
      else
        (case workerStart s' of
           Inl p \<Rightarrow> Inl p
         | Inr w \<Rightarrow>
             Inr \<lparr>dumper = s', ws = replicate (nat (workers s')) w,
                  uploads = [], admitted = []\<rparr>))"

text \<open>
  Events of the pool, at the grain of one channel operation each. \<open>Serve c r\<close> is the
  logging part of one \<open>ServeDNS\<close> call, \<open>r\<close> naming a worker parked in its outer
  \<open>select\<close> (running, \<open>stop\<close> not closed, queue empty), if the call meets one.
  \<open>Recv i\<close>, \<open>Tick i\<close> and \<open>StopSeen i\<close> are the three cases of worker \<open>i\<close>'s outer
  \<open>select\<close>, \<open>DrainStep i\<close> one round of its drain loop, \<open>Close\<close> is \<open>OnShutdown\<close>.
  A step is \<open>None\<close> when the case is not ready in that state or when it panics.
  Time is not modelled: a tick may come at any moment.
\<close>

datatype 'e event =
    Serve "'e dnsCall" "nat option"
  | Recv nat
  | Tick nat
  | StopSeen nat
  | DrainStep nat
  | Close

definition qBuf :: "'e pool \<Rightarrow> 'e list" where
  "qBuf p = (case queue (dumper p) of None \<Rightarrow> [] | Some q \<Rightarrow> chanBuf q)"

definition setBuf :: "'e list \<Rightarrow> 'e pool \<Rightarrow> 'e pool" where
  "setBuf es p =
     (case queue (dumper p) of
        None \<Rightarrow> p
      | Some q \<Rightarrow> p\<lparr>dumper := (dumper p)\<lparr>queue := Some (q\<lparr>chanBuf := es\<rparr>)\<rparr>\<rparr>)"

definition parkedOk :: "'e pool \<Rightarrow> nat option \<Rightarrow> bool" where
  "parkedOk p r =
     (case r of
        None \<Rightarrow> True
      | Some i \<Rightarrow> i < length (ws p) \<and> phase (ws p ! i) = Running
                  \<and> stop (dumper p) \<noteq> ChanClosed \<and> qBuf p = [])"

definition wake :: "nat \<Rightarrow> 'e wakeup \<Rightarrow> 'e pool \<Rightarrow> 'e pool option" where
  "wake i wk p =
     (if i < length (ws p) then
        (case worker (batchSize (dumper p)) wk (ws p ! i, uploads p) of
           None \<Rightarrow> None
         | Some (w', ups') \<Rightarrow> Some (p\<lparr>ws := (ws p)[i := w'], uploads := ups'\<rparr>))
      else None)"

fun step :: "'e pool \<Rightarrow> 'e event \<Rightarrow> 'e pool option" where
  "step p (Serve c r) =
     (if parkedOk p r then
        (case ServeDNS (dumper p) c (r \<noteq> None) of
           (ret, out, d') \<Rightarrow>
             (if out = Enqueued
              then Some (p\<lparr>dumper := d', admitted := admitted p @ [entry c]\<rparr>)
              else if out = Handed
              then (case r of
                      None \<Rightarrow> None
                    | Some i \<Rightarrow>
                        wake i (Entry (entry c))
                          (p\<lparr>dumper := d', admitted := admitted p @ [entry c]\<rparr>))
              else Some (p\<lparr>dumper := d'\<rparr>)))
      else None)"
| "step p (Recv i) =
     (case qBuf p of
        [] \<Rightarrow> None
      | e # rest \<Rightarrow> wake i (Entry e) (setBuf rest p))"
| "step p (Tick i) = wake i TickerFired p"
| "step p (StopSeen i) =
     (if stop (dumper p) = ChanClosed then wake i StopClosed p else None)"
| "step p (DrainStep i) =
     (case qBuf p of
        [] \<Rightarrow> wake i DrainEmpty p
      | e # rest \<Rightarrow> wake i (DrainEntry e) (setBuf rest p))"
| "step p Close =
     (case OnShutdown (dumper p) of Inl e \<Rightarrow> None | Inr d \<Rightarrow> Some (p\<lparr>dumper := d\<rparr>))"

fun exec :: "'e pool \<Rightarrow> 'e event list \<Rightarrow> 'e pool option" where
  "exec p [] = Some p"
| "exec p (ev # evs) = (case step p ev of None \<Rightarrow> None | Some p' \<Rightarrow> exec p' evs)"

fun isServe :: "'e event \<Rightarrow> bool" where
  "isServe (Serve c r) = True"
| "isServe ev = False"


section \<open>Properties of the log buffer\<close>

lemma Add_cases:
  "Add b e =
     (if int (length (entries b)) + 1 < maxSize b
      then (None, b\<lparr>entries := entries b @ [e]\<rparr>)
      else (Some (entries b @ [e]), b\<lparr>entries := []\<rparr>))"
  by (simp add: Add_def resetAndReturn_def Let_def)

lemma Flush_cases:
  "Flush b =
     (if entries b = [] then (None, b) else (Some (entries b), b\<lparr>entries := []\<rparr>))"
  by (simp add: Flush_def resetAndReturn_def)

lemma applyOp_maxSize: "applyOp b x = (out, b') \<Longrightarrow> maxSize b' = maxSize b"
  by (cases x) (auto simp: Add_cases Flush_cases split: if_splits)

lemma applyOp_bound:
  "applyOp b x = (out, b') \<Longrightarrow> 1 \<le> maxSize b \<Longrightarrow> int (length (entries b)) < maxSize b
    \<Longrightarrow> int (length (entries b')) < maxSize b"
  by (cases x) (auto simp: Add_cases Flush_cases split: if_splits)

lemma applyOp_keeps:
  "applyOp b x = (out, b') \<Longrightarrow> batchOf out @ entries b' = entries b @ added [x]"
  by (cases x) (auto simp: Add_cases Flush_cases split: if_splits)

lemma applyOp_nonempty: "applyOp b x = (out, b') \<Longrightarrow> out \<noteq> Some []"
  by (cases x) (auto simp: Add_cases Flush_cases split: if_splits)

lemma added_Cons: "added (x # xs) = added [x] @ added xs"
  by (cases x) simp_all

lemma runOps_maxSize: "runOps b xs = (outs, b') \<Longrightarrow> maxSize b' = maxSize b"
proof (induction xs arbitrary: b outs b')
  case Nil
  then show ?case by simp
next
  case (Cons x xs)
  obtain out b1 where s1: "applyOp b x = (out, b1)" by (cases "applyOp b x")
  obtain outs1 b2 where s2: "runOps b1 xs = (outs1, b2)" by (cases "runOps b1 xs")
  from Cons.prems s1 s2 have "b' = b2" by simp
  with Cons.IH [OF s2] applyOp_maxSize [OF s1] show ?case by simp
qed

lemma runOps_bound:
  "runOps b xs = (outs, b') \<Longrightarrow> 1 \<le> maxSize b \<Longrightarrow> int (length (entries b)) < maxSize b
    \<Longrightarrow> int (length (entries b')) < maxSize b"
proof (induction xs arbitrary: b outs b')
  case Nil
  then show ?case by simp
next
  case (Cons x xs)
  obtain out b1 where s1: "applyOp b x = (out, b1)" by (cases "applyOp b x")
  obtain outs1 b2 where s2: "runOps b1 xs = (outs1, b2)" by (cases "runOps b1 xs")
  from Cons.prems(1) s1 s2 have eq: "b' = b2" by simp
  have m: "maxSize b1 = maxSize b" by (rule applyOp_maxSize [OF s1])
  have "int (length (entries b1)) < maxSize b"
    by (rule applyOp_bound [OF s1 Cons.prems(2) Cons.prems(3)])
  with Cons.IH [OF s2] m Cons.prems(2) eq show ?case by simp
qed

lemma runOps_keeps:
  "runOps b xs = (outs, b') \<Longrightarrow>
     concat (map batchOf outs) @ entries b' = entries b @ added xs"
proof (induction xs arbitrary: b outs b')
  case Nil
  then show ?case by simp
next
  case (Cons x xs)
  obtain out b1 where s1: "applyOp b x = (out, b1)" by (cases "applyOp b x")
  obtain outs1 b2 where s2: "runOps b1 xs = (outs1, b2)" by (cases "runOps b1 xs")
  from Cons.prems s1 s2 have eq: "b' = b2" "outs = out # outs1" by simp_all
  have "concat (map batchOf outs) @ entries b' =
          batchOf out @ (concat (map batchOf outs1) @ entries b2)"
    using eq by simp
  also have "\<dots> = batchOf out @ (entries b1 @ added xs)"
    using Cons.IH [OF s2] by simp
  also have "\<dots> = (entries b @ added [x]) @ added xs"
    using applyOp_keeps [OF s1] by simp
  also have "\<dots> = entries b @ added (x # xs)"
    using added_Cons [of x xs] by simp
  finally show ?case .
qed

lemma runOps_nonempty: "runOps b xs = (outs, b') \<Longrightarrow> Some [] \<notin> set outs"
proof (induction xs arbitrary: b outs b')
  case Nil
  then show ?case by simp
next
  case (Cons x xs)
  obtain out b1 where s1: "applyOp b x = (out, b1)" by (cases "applyOp b x")
  obtain outs1 b2 where s2: "runOps b1 xs = (outs1, b2)" by (cases "runOps b1 xs")
  from Cons.prems s1 s2 have eq: "outs = out # outs1" by simp
  with Cons.IH [OF s2] applyOp_nonempty [OF s1] show ?case by auto
qed

text \<open>
  C10. For a buffer constructed with \<open>maxSize \<ge> 1\<close> and any sequence of \<open>Add\<close> and
  \<open>Flush\<close> calls: the buffer then holds strictly fewer than \<open>maxSize\<close> entries; the
  returned batches followed by the entries still held are exactly the added entries in
  arrival order (nothing is rejected or dropped); no returned batch is empty; a further
  \<open>Add\<close> returns nil exactly when the count after the append is below \<open>maxSize\<close>, and
  otherwise returns all accumulated entries in order and leaves the buffer empty; and
  \<open>Flush\<close> on an empty buffer returns nil.
\<close>

theorem C10_logbuffer_add_flush:
  assumes "1 \<le> m"
    and "NewLogBuffer m = Inr b0"
    and "runOps b0 ops = (outs, b)"
  shows "int (length (entries b)) < m
    \<and> concat (map batchOf outs) @ entries b = added ops
    \<and> Some [] \<notin> set outs
    \<and> (fst (Add b e) = None \<longleftrightarrow> int (length (entries b @ [e])) < m)
    \<and> (int (length (entries b @ [e])) < m \<longrightarrow>
          Add b e = (None, b\<lparr>entries := entries b @ [e]\<rparr>))
    \<and> (\<not> int (length (entries b @ [e])) < m \<longrightarrow>
          Add b e = (Some (entries b @ [e]), b\<lparr>entries := []\<rparr>))
    \<and> (entries b = [] \<longrightarrow> Flush b = (None, b))"
proof -
  from assms(2) have b0: "entries b0 = []" "maxSize b0 = m"
    by (auto simp: NewLogBuffer_def split: if_splits)
  have m: "maxSize b = m"
    using runOps_maxSize [OF assms(3)] b0 by simp
  have bound: "int (length (entries b)) < m"
    using runOps_bound [OF assms(3)] b0 assms(1) by simp
  have keeps: "concat (map batchOf outs) @ entries b = added ops"
    using runOps_keeps [OF assms(3)] b0 by simp
  have ne: "Some [] \<notin> set outs"
    by (rule runOps_nonempty [OF assms(3)])
  have add: "Add b e =
     (if int (length (entries b @ [e])) < m
      then (None, b\<lparr>entries := entries b @ [e]\<rparr>)
      else (Some (entries b @ [e]), b\<lparr>entries := []\<rparr>))"
    using Add_cases [of b e] m by simp
  have fl: "entries b = [] \<longrightarrow> Flush b = (None, b)"
    by (simp add: Flush_cases)
  from bound keeps ne add fl show ?thesis by simp
qed

theorem C10_logbuffer_add_flush_witness:
  "(1::int) \<le> 2
   \<and> NewLogBuffer 2 = Inr \<lparr>entries = ([]::nat list), maxSize = 2\<rparr>
   \<and> runOps \<lparr>entries = [], maxSize = 2\<rparr> [OpAdd (10::nat), OpAdd 11, OpFlush, OpAdd 12]
       = ([None, Some [10, 11], None, None], \<lparr>entries = [12], maxSize = 2\<rparr>)
   \<and> Add \<lparr>entries = [12], maxSize = 2\<rparr> (13::nat)
       = (Some [12, 13], \<lparr>entries = [], maxSize = 2\<rparr>)"
proof -
  have h1: "(1::int) \<le> 2" by simp
  have h2: "NewLogBuffer 2 = Inr \<lparr>entries = ([]::nat list), maxSize = 2\<rparr>"
    by (simp add: NewLogBuffer_def)
  have h3: "runOps \<lparr>entries = [], maxSize = 2\<rparr> [OpAdd (10::nat), OpAdd 11, OpFlush, OpAdd 12]
       = ([None, Some [10, 11], None, None], \<lparr>entries = [12], maxSize = 2\<rparr>)"
    by (simp add: Add_def Flush_def resetAndReturn_def)
  from C10_logbuffer_add_flush [OF h1 h2 h3, of 13] h1 h2 h3 show ?thesis by simp
qed

end
